theory Spec2Isabelle
  imports Main "HOL-Library.Word"
begin

unbundle bit_operations_syntax

section \<open>Machine types and outcomes\<close>

text \<open>
  The C++ sources use \<open>uint8_t\<close> and \<open>uint32_t\<close>; arithmetic on them wraps around.
  A \<open>size_t\<close> (table sizes, loop counters over tables) is a natural number.
\<close>

type_synonym u8 = "8 word"
type_synonym u32 = "32 word"

text \<open>
  A C++ call either returns, or runs into undefined behaviour (an index outside a
  \<open>std::array\<close>, \<open>pop_back\<close> on an empty \<open>std::string\<close>). The second is a value of the
  model, so that no theorem silently assumes it away.
\<close>

datatype 'a outcome = Returned 'a | Undefined

section \<open>The bounded binary reader\<close>

text \<open>
  Modelled from the spec: the class \<open>CustomBinaryStream\<close> (custombinaryreader.h/.cc) is
  used by every function of portablepdbfile.cc but is not among the sources. Section 4.1
  of the specification describes it: sequential and random byte access over an in-memory
  buffer, a virtual end-of-stream boundary that \<open>SetStreamLength n\<close> establishes and
  \<open>ResetStreamLength\<close> removes, \<open>HasNext\<close> true while the current position is below the
  active length, and reads that fail by returning false instead of raising.

  The reading taken here: the boundary is placed \<open>n\<close> bytes after the current position
  (the callers seek to the start of a blob or stream and then pass its declared length);
  the boundary is nestable, so one that is set while another is active never lies beyond
  the active one (a sub-parser cannot read past the blob it is in); a length that reaches
  beyond the end of the buffer cannot be established; a seek is checked against the
  buffer, not against the boundary (the document-name decoder seeks to other blobs of the
  heap while the boundary of the name blob is active); a failed operation leaves the
  stream as it was.
\<close>

record CustomBinaryStream =
  file_content :: "u8 list"
  cursor :: nat
  relative_end :: "nat option"

definition stream_end :: "CustomBinaryStream \<Rightarrow> nat" where
  "stream_end s =
     (case relative_end s of
        None \<Rightarrow> length (file_content s)
      | Some e \<Rightarrow> min e (length (file_content s)))"

definition HasNext :: "CustomBinaryStream \<Rightarrow> bool" where
  "HasNext s = (cursor s < stream_end s)"

definition Current :: "CustomBinaryStream \<Rightarrow> nat" where
  "Current s = cursor s"

definition SeekFromOrigin :: "nat \<Rightarrow> CustomBinaryStream \<Rightarrow> bool \<times> CustomBinaryStream" where
  "SeekFromOrigin p s =
     (if p \<le> length (file_content s) then (True, s\<lparr>cursor := p\<rparr>) else (False, s))"

definition SetStreamLength :: "nat \<Rightarrow> CustomBinaryStream \<Rightarrow> bool \<times> CustomBinaryStream" where
  "SetStreamLength n s =
     (if cursor s + n \<le> length (file_content s)
      then (True, s\<lparr>relative_end := Some (min (cursor s + n) (stream_end s))\<rparr>)
      else (False, s))"

definition ResetStreamLength :: "CustomBinaryStream \<Rightarrow> CustomBinaryStream" where
  "ResetStreamLength s = s\<lparr>relative_end := None\<rparr>"

definition ReadByte :: "CustomBinaryStream \<Rightarrow> u8 option \<times> CustomBinaryStream" where
  "ReadByte s =
     (if HasNext s then (Some (file_content s ! cursor s), s\<lparr>cursor := cursor s + 1\<rparr>)
      else (None, s))"

definition ReadBytes :: "nat \<Rightarrow> CustomBinaryStream \<Rightarrow> u8 list option \<times> CustomBinaryStream" where
  "ReadBytes n s =
     (if cursor s + n \<le> stream_end s
      then (Some (take n (drop (cursor s) (file_content s))), s\<lparr>cursor := cursor s + n\<rparr>)
      else (None, s))"

text \<open>
  The compressed unsigned integer of section 4.1: one byte when the top bit of the first
  byte is 0; two bytes when its top two bits are 10, the tag bits masked off; otherwise
  four bytes with the top bit masked off. The bytes after the first are the less
  significant ones, in the order of the file format (most significant first).
\<close>

definition ReadCompressedUInt32 :: "CustomBinaryStream \<Rightarrow> u32 option \<times> CustomBinaryStream" where
  "ReadCompressedUInt32 s =
     (case ReadByte s of
        (None, _) \<Rightarrow> (None, s)
      | (Some b0, s1) \<Rightarrow>
          if b0 AND 0x80 = 0 then (Some (ucast b0), s1)
          else if b0 AND 0xC0 = 0x80 then
            (case ReadByte s1 of
               (None, _) \<Rightarrow> (None, s)
             | (Some b1, s2) \<Rightarrow>
                 (Some (push_bit 8 (ucast (b0 AND 0x3F)) OR ucast b1), s2))
          else
            (case ReadBytes 3 s1 of
               (None, _) \<Rightarrow> (None, s)
             | (Some bs, s2) \<Rightarrow>
                 (Some (push_bit 24 (ucast (b0 AND 0x7F))
                          OR push_bit 16 (ucast (bs ! 0))
                          OR push_bit 8 (ucast (bs ! 1))
                          OR ucast (bs ! 2)), s2)))"

section \<open>Rows, records and the functions of metadataheaders.h and metadatatables.h\<close>

text \<open>
  The rows of the five tables, with the fields of section 3 of the specification (the
  headers that declare them are not among the sources; the fields are the ones
  documentindex.cc reads). Field names carry a prefix where two rows share a name.
\<close>

record DocumentRow =
  doc_name :: u32
  hash_algorithm :: u32
  hash :: u32
  language :: u32

record MethodDebugInformationRow =
  mdi_document :: u32
  mdi_sequence_points :: u32

record LocalScopeRow =
  ls_method_def :: u32
  variable_list :: u32
  constant_list :: u32
  ls_start_offset :: u32
  ls_length :: u32

record LocalVariableRow =
  lv_attributes :: u32
  lv_index :: u32
  lv_name :: u32

record LocalConstantRow =
  lc_name :: u32
  lc_signature :: u32

record SequencePointRecord =
  il_delta :: u32
  rec_start_line :: u32
  rec_end_line :: u32
  rec_start_col :: u32
  rec_end_col :: u32

text \<open>
  Taken as parameters: the free functions and the constant of metadataheaders.h and
  metadatatables.h that documentindex.cc and portablepdbfile.cc call and that are not
  among the sources. \<open>ParseFrom\<close> is the overload that decodes a method's sequence-point
  blob from a reader; it returns the records (\<open>None\<close> for \<open>false\<close>) and the reader.
\<close>

record metadata_headers =
  ParseFrom :: "u32 \<Rightarrow> CustomBinaryStream
                  \<Rightarrow> SequencePointRecord list option \<times> CustomBinaryStream"
  IsDocumentChange :: "SequencePointRecord \<Rightarrow> bool"
  IsHidden :: "SequencePointRecord \<Rightarrow> bool"
  GetLanguageName :: "string \<Rightarrow> string"
  GetHashAlgorithmName :: "string \<Rightarrow> string"
  kDebuggerHidden :: u32

text \<open>
  The header of the \<open>#~\<close> stream: the bit vector of the tables that are present and one
  row count for every set bit, in ascending order of the table kind.
\<close>

record MetadataTableHeader =
  valid_mask :: "64 word"
  num_rows :: "u32 list"

text \<open>
  Taken as parameters: the enumerators of \<open>MetadataTable\<close> that portablepdbfile.cc names
  (the value of a table kind is its bit in \<open>valid_mask\<close> and its index in
  \<open>rows_per_table\<close>; \<open>MaxValue\<close> is the size of that array), the overload of \<open>ParseFrom\<close>
  that reads a \<open>MetadataTableHeader\<close>, and the five instances of the template
  \<open>ParseMetadataTableRow\<close>, which read the given number of rows of one table.
\<close>

record metadata_tables =
  Document :: nat
  MethodDebugInformation :: nat
  LocalScope :: nat
  LocalVariable :: nat
  LocalConstant :: nat
  MaxValue :: nat
  ParseFrom_MetadataTableHeader ::
    "CustomBinaryStream \<Rightarrow> MetadataTableHeader option \<times> CustomBinaryStream"
  ParseMetadataTableRow_DocumentRow ::
    "u32 \<Rightarrow> CustomBinaryStream \<Rightarrow> DocumentRow list option \<times> CustomBinaryStream"
  ParseMetadataTableRow_MethodDebugInformationRow ::
    "u32 \<Rightarrow> CustomBinaryStream
       \<Rightarrow> MethodDebugInformationRow list option \<times> CustomBinaryStream"
  ParseMetadataTableRow_LocalScopeRow ::
    "u32 \<Rightarrow> CustomBinaryStream \<Rightarrow> LocalScopeRow list option \<times> CustomBinaryStream"
  ParseMetadataTableRow_LocalVariableRow ::
    "u32 \<Rightarrow> CustomBinaryStream \<Rightarrow> LocalVariableRow list option \<times> CustomBinaryStream"
  ParseMetadataTableRow_LocalConstantRow ::
    "u32 \<Rightarrow> CustomBinaryStream \<Rightarrow> LocalConstantRow list option \<times> CustomBinaryStream"

section \<open>portablepdbfile.cc\<close>

text \<open>
  \<open>StreamHeader\<close> and the members of \<open>PortablePdbFile\<close> that the functions below read
  or write. The heap accessors are \<open>const\<close> methods that move the shared reader
  \<open>pdb_file_binary_stream_\<close>; the model returns the reader after the call.
\<close>

record StreamHeader =
  sh_offset :: u32
  sh_size :: u32
  sh_name :: string

record PortablePdbFile =
  pdb_file_binary_stream :: CustomBinaryStream
  stream_headers :: "StreamHeader list"
  string_heap_header :: StreamHeader
  blob_heap_header :: StreamHeader
  guid_heap_header :: StreamHeader
  pdbfile_metadata_table_header :: MetadataTableHeader
  pdbfile_document_table :: "DocumentRow list"
  pdbfile_method_debug_info_table :: "MethodDebugInformationRow list"
  pdbfile_local_scope_table :: "LocalScopeRow list"
  pdbfile_local_variable_table :: "LocalVariableRow list"
  pdbfile_local_constant_table :: "LocalConstantRow list"

subsection \<open>GetDocumentName\<close>

text \<open>
  The body of the \<open>while (HasNext())\<close> loop of \<open>PortablePdbFile::GetDocumentName\<close>, lines
  141 to 181. \<open>Inl s\<close> is \<open>return false\<close> with the reader left as \<open>s\<close>; \<open>Inr (s, result)\<close>
  is the end of the iteration. The four failures before the component is appended call
  \<open>ResetStreamLength\<close>; the failure of the resuming seek or of the second
  \<open>SetStreamLength\<close> (lines 175 to 178) returns without calling it.
\<close>

definition name_component ::
  "u32 \<Rightarrow> u32 \<Rightarrow> u8 \<Rightarrow> CustomBinaryStream \<Rightarrow> u8 list
     \<Rightarrow> CustomBinaryStream + (CustomBinaryStream \<times> u8 list)" where
  "name_component blob_offset index_stream_length separator s result =
     (case ReadCompressedUInt32 s of
        (None, s1) \<Rightarrow> Inl (ResetStreamLength s1)
      | (Some part_index, s1) \<Rightarrow>
          let index_stream_pos = Current s1 in
          if part_index \<noteq> 0 then
            (case SeekFromOrigin (unat (blob_offset + part_index)) s1 of
               (ok2, s2) \<Rightarrow>
                 if ok2 then
                   (case ReadCompressedUInt32 s2 of
                      (None, s3) \<Rightarrow> Inl (ResetStreamLength s3)
                    | (Some component_string_length, s3) \<Rightarrow>
                        (case ReadBytes (unat component_string_length) s3 of
                           (None, s4) \<Rightarrow> Inl (ResetStreamLength s4)
                         | (Some component_string, s4) \<Rightarrow>
                             (case SeekFromOrigin index_stream_pos s4 of
                                (ok5, s5) \<Rightarrow>
                                  if ok5 then
                                    (case SetStreamLength (unat index_stream_length) s5 of
                                       (ok6, s6) \<Rightarrow>
                                         if ok6
                                         then Inr (s6, result @ component_string @ [separator])
                                         else Inl s6)
                                  else Inl s5)))
                 else Inl (ResetStreamLength s2))
          else Inr (s1, result @ [separator]))"

text \<open>
  The loop itself. Every iteration that does not return reads at least one byte of the
  index list and ends with the cursor behind that byte, so the distance of the cursor to
  the end of the buffer shrinks.
\<close>

function name_loop ::
  "u32 \<Rightarrow> u32 \<Rightarrow> u8 \<Rightarrow> CustomBinaryStream \<Rightarrow> u8 list
     \<Rightarrow> CustomBinaryStream + (CustomBinaryStream \<times> u8 list)" where
  "name_loop blob_offset index_stream_length separator s result =
     (if HasNext s then
        (case name_component blob_offset index_stream_length separator s result of
           Inl s' \<Rightarrow> Inl s'
         | Inr (s', result') \<Rightarrow>
             name_loop blob_offset index_stream_length separator s' result')
      else Inr (s, result))"
  by pat_completeness auto
termination
proof (relation "measure (\<lambda>(b, l, sep, s, r). length (file_content s) - cursor s)")
  show "wf (measure (\<lambda>(b, l, sep, s, r). length (file_content s) - cursor s))"
    by simp
next
  fix blob_offset index_stream_length :: u32 and separator :: u8
    and s :: CustomBinaryStream and result :: "u8 list" and x y z
  assume h: "HasNext s"
    and c: "name_component blob_offset index_stream_length separator s result = Inr x"
    and xy: "(y, z) = x"
  have rb: "\<And>t v t'. ReadByte t = (Some v, t') \<Longrightarrow>
      file_content t' = file_content t \<and> cursor t' = cursor t + 1
      \<and> cursor t' \<le> length (file_content t) \<and> relative_end t' = relative_end t"
    by (auto simp: ReadByte_def HasNext_def stream_end_def split: if_splits option.splits)
  have rbs: "\<And>n t v t'. ReadBytes n t = (Some v, t') \<Longrightarrow>
      file_content t' = file_content t \<and> cursor t' = cursor t + n
      \<and> cursor t' \<le> length (file_content t) \<and> relative_end t' = relative_end t"
    by (auto simp: ReadBytes_def stream_end_def split: if_splits option.splits)
  have rc: "\<And>t v t'. ReadCompressedUInt32 t = (Some v, t') \<Longrightarrow>
      file_content t' = file_content t \<and> cursor t < cursor t'
      \<and> cursor t' \<le> length (file_content t)"
  proof -
    fix t v t'
    assume a: "ReadCompressedUInt32 t = (Some v, t')"
    obtain o1 t1 where r1: "ReadByte t = (o1, t1)" by (cases "ReadByte t")
    show "file_content t' = file_content t \<and> cursor t < cursor t'
      \<and> cursor t' \<le> length (file_content t)"
    proof (cases o1)
      case None
      with a r1 show ?thesis by (simp add: ReadCompressedUInt32_def)
    next
      case (Some b0)
      note f1 = rb [OF r1 [unfolded Some]]
      obtain o2 t2 where r2: "ReadByte t1 = (o2, t2)" by (cases "ReadByte t1")
      obtain o3 t3 where r3: "ReadBytes 3 t1 = (o3, t3)" by (cases "ReadBytes 3 t1")
      show ?thesis
      proof (cases "b0 AND 0x80 = 0")
        case True
        with a r1 Some f1 show ?thesis by (simp add: ReadCompressedUInt32_def)
      next
        case False
        show ?thesis
        proof (cases "b0 AND 0xC0 = 0x80")
          case True
          show ?thesis
          proof (cases o2)
            case None
            with a r1 r2 Some False True show ?thesis
              by (simp add: ReadCompressedUInt32_def)
          next
            case (Some b1)
            note f2 = rb [OF r2 [unfolded Some]]
            from a r1 r2 \<open>o1 = Some b0\<close> Some False True have "t' = t2"
              by (simp add: ReadCompressedUInt32_def)
            with f1 f2 show ?thesis by simp
          qed
        next
          case c0: False
          show ?thesis
          proof (cases o3)
            case None
            with a r1 r3 Some False c0 show ?thesis
              by (simp add: ReadCompressedUInt32_def)
          next
            case (Some bs)
            note f3 = rbs [OF r3 [unfolded Some]]
            from a r1 r3 \<open>o1 = Some b0\<close> Some False c0 have "t' = t3"
              by (simp add: ReadCompressedUInt32_def)
            with f1 f3 show ?thesis by simp
          qed
        qed
      qed
    qed
  qed
  obtain o1 s1 where r1: "ReadCompressedUInt32 s = (o1, s1)"
    by (cases "ReadCompressedUInt32 s")
  from c r1 obtain part_index where o1: "o1 = Some part_index"
    by (cases o1) (auto simp: name_component_def)
  note f1 = rc [OF r1 [unfolded o1]]
  have "file_content y = file_content s1 \<and> cursor y = cursor s1"
  proof (cases "part_index = 0")
    case True
    with c r1 o1 xy [symmetric] show ?thesis
      by (simp add: name_component_def Let_def)
  next
    case False
    obtain ok2 s2 where r2: "SeekFromOrigin (unat (blob_offset + part_index)) s1 = (ok2, s2)"
      by (cases "SeekFromOrigin (unat (blob_offset + part_index)) s1")
    have f2: "file_content s2 = file_content s1"
      using r2 by (auto simp: SeekFromOrigin_def split: if_splits)
    obtain o3 s3 where r3: "ReadCompressedUInt32 s2 = (o3, s3)"
      by (cases "ReadCompressedUInt32 s2")
    from c r1 o1 False r2 r3 obtain len where o3: "o3 = Some len" and ok2: "ok2"
      by (cases o3; cases ok2) (auto simp: name_component_def Let_def)
    note f3 = rc [OF r3 [unfolded o3]]
    obtain o4 s4 where r4: "ReadBytes (unat len) s3 = (o4, s4)"
      by (cases "ReadBytes (unat len) s3")
    from c r1 o1 False r2 r3 o3 ok2 r4 obtain bs where o4: "o4 = Some bs"
      by (cases o4) (auto simp: name_component_def Let_def)
    note f4 = rbs [OF r4 [unfolded o4]]
    from c r1 o1 False r2 r3 o3 ok2 r4 o4 xy [symmetric]
    have "file_content y = file_content s4 \<and> cursor y = cursor s1"
      by (auto simp: name_component_def Let_def Current_def SeekFromOrigin_def
          SetStreamLength_def split: if_splits)
    with f2 f3 f4 show ?thesis by simp
  qed
  with f1 show "((blob_offset, index_stream_length, separator, y, z),
      (blob_offset, index_stream_length, separator, s, result))
      \<in> measure (\<lambda>(b, l, sep, s, r). length (file_content s) - cursor s)"
    by (auto intro: diff_less_mono2)
qed

text \<open>
  \<open>PortablePdbFile::GetDocumentName\<close>, lines 113 to 189. The result of the first
  \<open>SeekFromOrigin\<close> (line 118) is not tested by the source. \<open>Returned None\<close> is
  \<open>return false\<close>, \<open>Returned (Some name)\<close> is \<open>return true\<close> with \<open>*doc_name = name\<close>, and
  \<open>Undefined\<close> is \<open>result.pop_back()\<close> on an empty string (line 184).
\<close>

definition GetDocumentName ::
  "PortablePdbFile \<Rightarrow> u32 \<Rightarrow> u8 list option outcome \<times> CustomBinaryStream" where
  "GetDocumentName pdb index =
     (let s = pdb_file_binary_stream pdb;
          blob_offset = sh_offset (blob_heap_header pdb)
      in if index = 0 then (Returned None, s)
         else
           (case SeekFromOrigin (unat (blob_offset + index)) s of
              (_, s0) \<Rightarrow>
                (case ReadCompressedUInt32 s0 of
                   (None, s1) \<Rightarrow> (Returned None, s1)
                 | (Some index_stream_length, s1) \<Rightarrow>
                     (case SetStreamLength (unat index_stream_length) s1 of
                        (ok2, s2) \<Rightarrow>
                          if ok2 then
                            (case ReadByte s2 of
                               (None, s3) \<Rightarrow> (Returned None, ResetStreamLength s3)
                             | (Some separator, s3) \<Rightarrow>
                                 (case name_loop blob_offset index_stream_length separator s3 [] of
                                    Inl s4 \<Rightarrow> (Returned None, s4)
                                  | Inr (s4, result) \<Rightarrow>
                                      if result = [] then (Undefined, s4)
                                      else (Returned (Some (butlast result)),
                                            ResetStreamLength s4)))
                          else (Returned None, s2)))))"

subsection \<open>GetHeapGuid\<close>

text \<open>
  \<open>PortablePdbFile::GetHeapGuid\<close>, lines 191 to 212. \<open>offset\<close> is a \<open>uint32_t\<close>, and so is
  the sum with the 4-byte \<open>guid_heap_header_.offset\<close>: both wrap around. \<open>None\<close> is
  \<open>return false\<close>, \<open>Some bytes\<close> is \<open>return true\<close> with the 16 bytes in \<open>*guid\<close>.
\<close>

definition GetHeapGuid ::
  "PortablePdbFile \<Rightarrow> u32 \<Rightarrow> u8 list option \<times> CustomBinaryStream" where
  "GetHeapGuid pdb index =
     (let offset = (index - 1) * 16 in
      case SeekFromOrigin (unat (sh_offset (guid_heap_header pdb) + offset))
             (pdb_file_binary_stream pdb) of
        (ok1, s1) \<Rightarrow>
          if ok1 then
            (case ReadBytes 16 s1 of
               (None, s2) \<Rightarrow> (None, s2)
             | (Some bytes_read, s2) \<Rightarrow> (Some bytes_read, s2))
          else (None, s1))"

subsection \<open>GetMethodSeqInfo\<close>

text \<open>\<open>PortablePdbFile::GetMethodSeqInfo\<close>, lines 236 to 257.\<close>

definition GetMethodSeqInfo ::
  "metadata_headers \<Rightarrow> PortablePdbFile \<Rightarrow> u32 \<Rightarrow> u32
     \<Rightarrow> SequencePointRecord list option \<times> CustomBinaryStream" where
  "GetMethodSeqInfo mh pdb doc_index sequence_index =
     (case SeekFromOrigin (unat (sh_offset (blob_heap_header pdb) + sequence_index))
             (pdb_file_binary_stream pdb) of
        (ok1, s1) \<Rightarrow>
          if ok1 then
            (case ReadCompressedUInt32 s1 of
               (None, s2) \<Rightarrow> (None, s2)
             | (Some data_length, s2) \<Rightarrow>
                 (case SetStreamLength (unat data_length) s2 of
                    (ok3, s3) \<Rightarrow>
                      if ok3 then
                        (case ParseFrom mh doc_index s3 of
                           (result, s4) \<Rightarrow> (result, ResetStreamLength s4))
                      else (None, s3)))
          else (None, s1))"

subsection \<open>ParseCompressedMetadataTableStream\<close>

text \<open>\<open>PortablePdbFile::GetStream\<close>, lines 36 to 53: the first header with the name.\<close>

definition GetStream :: "PortablePdbFile \<Rightarrow> string \<Rightarrow> StreamHeader option" where
  "GetStream pdb stream_name = find (\<lambda>stream. stream_name = sh_name stream) (stream_headers pdb)"

text \<open>
  The loop of lines 311 to 320 that builds \<open>rows_per_table\<close>, on the table indices still
  to visit. An index into \<open>num_rows\<close> beyond its end is undefined behaviour.
\<close>

fun rows_per_table_loop ::
  "MetadataTableHeader \<Rightarrow> nat list \<Rightarrow> nat \<Rightarrow> u32 list \<Rightarrow> u32 list outcome" where
  "rows_per_table_loop h [] referenced_table rows_per_table = Returned rows_per_table"
| "rows_per_table_loop h (table_index # rest) referenced_table rows_per_table =
     (if bit (valid_mask h) table_index then
        (if referenced_table < length (num_rows h)
         then rows_per_table_loop h rest (Suc referenced_table)
                (rows_per_table @ [num_rows h ! referenced_table])
         else Undefined)
      else rows_per_table_loop h rest referenced_table (rows_per_table @ [0]))"

text \<open>
  The loop of lines 323 to 328, from \<open>i\<close> on: \<open>Returned False\<close> is the \<open>return false\<close> of
  line 326, \<open>Returned True\<close> the end of the loop. Its bound is the value
  \<open>rows_per_table[MetadataTable::Document]\<close>, the number of rows of the Document table. An
  index beyond the end of the \<open>std::array\<close> is undefined behaviour.
\<close>

function only_pdb_tables_loop :: "u32 list \<Rightarrow> nat \<Rightarrow> nat \<Rightarrow> bool outcome" where
  "only_pdb_tables_loop rows_per_table bound i =
     (if i < bound then
        (if length rows_per_table \<le> i then Undefined
         else if rows_per_table ! i \<noteq> 0 then Returned False
         else only_pdb_tables_loop rows_per_table bound (Suc i))
      else Returned True)"
  by pat_completeness auto
termination
  by (relation "measure (\<lambda>(rows_per_table, bound, i). bound - i)") auto

definition array_at :: "'a list \<Rightarrow> nat \<Rightarrow> 'a outcome" where
  "array_at xs i = (if i < length xs then Returned (xs ! i) else Undefined)"

text \<open>
  The five calls of \<open>ParseMetadataTableRow\<close>, lines 330 to 366, after the test of the
  table kinds: each failure resets the stream length and returns false.
\<close>

definition parse_tables ::
  "metadata_tables \<Rightarrow> PortablePdbFile \<Rightarrow> u32 list \<Rightarrow> CustomBinaryStream
     \<Rightarrow> (bool \<times> PortablePdbFile) outcome" where
  "parse_tables mt pdb rows_per_table s =
     (case array_at rows_per_table (Document mt) of
        Undefined \<Rightarrow> Undefined
      | Returned n1 \<Rightarrow>
     (case ParseMetadataTableRow_DocumentRow mt n1 s of
        (None, s1) \<Rightarrow> Returned (False, pdb\<lparr>pdb_file_binary_stream := ResetStreamLength s1\<rparr>)
      | (Some t1, s1) \<Rightarrow>
     (case array_at rows_per_table (MethodDebugInformation mt) of
        Undefined \<Rightarrow> Undefined
      | Returned n2 \<Rightarrow>
     (case ParseMetadataTableRow_MethodDebugInformationRow mt n2 s1 of
        (None, s2) \<Rightarrow>
          Returned (False, pdb\<lparr>pdb_file_binary_stream := ResetStreamLength s2,
                              pdbfile_document_table := t1\<rparr>)
      | (Some t2, s2) \<Rightarrow>
     (case array_at rows_per_table (LocalScope mt) of
        Undefined \<Rightarrow> Undefined
      | Returned n3 \<Rightarrow>
     (case ParseMetadataTableRow_LocalScopeRow mt n3 s2 of
        (None, s3) \<Rightarrow>
          Returned (False, pdb\<lparr>pdb_file_binary_stream := ResetStreamLength s3,
                              pdbfile_document_table := t1, pdbfile_method_debug_info_table := t2\<rparr>)
      | (Some t3, s3) \<Rightarrow>
     (case array_at rows_per_table (LocalVariable mt) of
        Undefined \<Rightarrow> Undefined
      | Returned n4 \<Rightarrow>
     (case ParseMetadataTableRow_LocalVariableRow mt n4 s3 of
        (None, s4) \<Rightarrow>
          Returned (False, pdb\<lparr>pdb_file_binary_stream := ResetStreamLength s4,
                              pdbfile_document_table := t1, pdbfile_method_debug_info_table := t2,
                              pdbfile_local_scope_table := t3\<rparr>)
      | (Some t4, s4) \<Rightarrow>
     (case array_at rows_per_table (LocalConstant mt) of
        Undefined \<Rightarrow> Undefined
      | Returned n5 \<Rightarrow>
     (case ParseMetadataTableRow_LocalConstantRow mt n5 s4 of
        (None, s5) \<Rightarrow>
          Returned (False, pdb\<lparr>pdb_file_binary_stream := ResetStreamLength s5,
                              pdbfile_document_table := t1, pdbfile_method_debug_info_table := t2,
                              pdbfile_local_scope_table := t3, pdbfile_local_variable_table := t4\<rparr>)
      | (Some t5, s5) \<Rightarrow>
          Returned (True, pdb\<lparr>pdb_file_binary_stream := ResetStreamLength s5,
                             pdbfile_document_table := t1, pdbfile_method_debug_info_table := t2,
                             pdbfile_local_scope_table := t3, pdbfile_local_variable_table := t4,
                             pdbfile_local_constant_table := t5\<rparr>)))))))))))"

text \<open>
  \<open>PortablePdbFile::ParseCompressedMetadataTableStream\<close>, lines 285 to 367: the flag
  returned and the object after the call.
\<close>

definition ParseCompressedMetadataTableStream ::
  "metadata_tables \<Rightarrow> PortablePdbFile \<Rightarrow> (bool \<times> PortablePdbFile) outcome" where
  "ParseCompressedMetadataTableStream mt pdb =
     (case GetStream pdb ''#~'' of
        None \<Rightarrow> Returned (False, pdb)
      | Some compressed_stream_header \<Rightarrow>
          (case SeekFromOrigin (unat (sh_offset compressed_stream_header))
                  (pdb_file_binary_stream pdb) of
             (ok1, s1) \<Rightarrow>
               if ok1 then
                 (case SetStreamLength (unat (sh_size compressed_stream_header)) s1 of
                    (ok2, s2) \<Rightarrow>
                      if ok2 then
                        (case ParseFrom_MetadataTableHeader mt s2 of
                           (None, s3) \<Rightarrow>
                             Returned (False,
                               pdb\<lparr>pdb_file_binary_stream := ResetStreamLength s3\<rparr>)
                         | (Some h, s3) \<Rightarrow>
                             (case rows_per_table_loop h [0..<MaxValue mt] 0 [] of
                                Undefined \<Rightarrow> Undefined
                              | Returned rows_per_table \<Rightarrow>
                                  (case array_at rows_per_table (Document mt) of
                                     Undefined \<Rightarrow> Undefined
                                   | Returned document_rows \<Rightarrow>
                                       (case only_pdb_tables_loop rows_per_table
                                               (unat document_rows) 0 of
                                          Undefined \<Rightarrow> Undefined
                                        | Returned only_pdb \<Rightarrow>
                                            if only_pdb
                                            then parse_tables mt
                                                   (pdb\<lparr>pdbfile_metadata_table_header := h\<rparr>)
                                                   rows_per_table s3
                                            else Returned (False,
                                                   pdb\<lparr>pdb_file_binary_stream :=
                                                          ResetStreamLength s3,
                                                        pdbfile_metadata_table_header := h\<rparr>)))))
                      else Returned (False,
                             pdb\<lparr>pdb_file_binary_stream := ResetStreamLength s2\<rparr>))
               else Returned (False,
                      pdb\<lparr>pdb_file_binary_stream := ResetStreamLength s1\<rparr>)))"

section \<open>documentindex.cc\<close>

text \<open>
  The interface \<open>IPortablePdbFile\<close> that \<open>DocumentIndex\<close> reads the file through (the
  mock of it is in i\_portablepdb\_mocks.h): the five tables and the heap accessors.
  An accessor that returns \<open>bool\<close> with an out-parameter is an \<open>option\<close>.
\<close>

record IPortablePdbFile =
  pdb_GetDocumentTable :: "DocumentRow list"
  pdb_GetMethodDebugInfoTable :: "MethodDebugInformationRow list"
  pdb_GetLocalScopeTable :: "LocalScopeRow list"
  pdb_GetLocalVariableTable :: "LocalVariableRow list"
  pdb_GetLocalConstantTable :: "LocalConstantRow list"
  pdb_GetDocumentName :: "u32 \<Rightarrow> string option"
  pdb_GetHeapGuid :: "u32 \<Rightarrow> string"
  pdb_GetHeapString :: "u32 \<Rightarrow> string"
  pdb_GetHeapBlobStream :: "u32 \<Rightarrow> CustomBinaryStream option"

record SequencePoint =
  il_offset :: u32
  start_line :: u32
  end_line :: u32
  start_col :: u32
  end_col :: u32
  is_hidden :: bool

record LocalVariableInfo =
  debugger_hidden :: bool
  slot :: u32
  var_name :: string

record LocalConstantInfo =
  const_name :: string

record Scope =
  local_var_row_start_index :: u32
  local_var_row_end_index :: u32
  local_const_row_start_index :: u32
  local_const_row_end_index :: u32
  start_offset :: u32
  scope_length :: u32
  scope_index :: u32
  local_variables :: "LocalVariableInfo list"
  local_constants :: "LocalConstantInfo list"

record MethodInfo =
  method_def :: u32
  first_line :: u32
  last_line :: u32
  sequence_points :: "SequencePoint list"
  local_scope :: "Scope list"

record DocumentIndex =
  file_path :: string
  source_language :: string
  hash_algorithm_name :: string
  hash_bytes :: "u8 list"
  methods :: "MethodInfo list"

subsection \<open>ParseScope\<close>

text \<open>
  \<open>DocumentIndex::ParseScope\<close>, lines 176 to 248. The function fills \<open>*local_scope\<close> and
  returns \<open>bool\<close>; the model returns both, because the caller keeps the scope whatever the
  flag says. The four row indices are \<open>uint32_t\<close>: a table size assigned to one is
  truncated (\<open>of_nat\<close>), \<open>scope_index + 1\<close> wraps, and a comparison with a \<open>size_t\<close> is
  made on the unsigned values.
\<close>

definition ParseScope ::
  "metadata_headers \<Rightarrow> IPortablePdbFile \<Rightarrow> Scope \<Rightarrow> LocalScopeRow \<Rightarrow> LocalScopeRow list
     \<Rightarrow> LocalVariableRow list \<Rightarrow> LocalConstantRow list \<Rightarrow> u32 \<Rightarrow> u32 \<Rightarrow> bool \<times> Scope" where
  "ParseScope mh pdb local_scope_arg local_scope_row local_scope_table local_variable_table
       local_constant_table method_def_arg scope_index_arg =
     (if length local_scope_table \<le> unat scope_index_arg then (False, local_scope_arg)
      else
        let s1 = local_scope_arg
               \<lparr>local_var_row_start_index := variable_list local_scope_row,
                local_var_row_end_index := of_nat (length local_variable_table),
                local_const_row_start_index := constant_list local_scope_row,
                local_const_row_end_index := of_nat (length local_constant_table),
                start_offset := ls_start_offset local_scope_row,
                scope_length := ls_length local_scope_row,
                scope_index := scope_index_arg\<rparr>;
            s2 = (if unat (scope_index_arg + 1) < length local_scope_table then
                    let next_scope_row = local_scope_table ! unat (scope_index_arg + 1) in
                    s1\<lparr>local_var_row_end_index :=
                         min (local_var_row_end_index s1) (variable_list next_scope_row),
                       local_const_row_end_index :=
                         min (local_const_row_end_index s1) (constant_list next_scope_row)\<rparr>
                  else s1)
        in
          if local_var_row_end_index s2 < local_var_row_start_index s2
             \<or> length local_variable_table < unat (local_var_row_end_index s2)
          then (False, s2)
          else
            let s3 = s2\<lparr>local_variables := local_variables s2 @
                          map (\<lambda>var_idx.
                                 let local_variable_row = local_variable_table ! var_idx in
                                 \<lparr>debugger_hidden =
                                    (lv_attributes local_variable_row = kDebuggerHidden mh),
                                  slot = lv_index local_variable_row,
                                  var_name = pdb_GetHeapString pdb (lv_name local_variable_row)\<rparr>)
                              [unat (local_var_row_start_index s2) ..<
                               unat (local_var_row_end_index s2)]\<rparr>
            in
              if local_const_row_end_index s3 < local_const_row_start_index s3
                 \<or> length local_constant_table < unat (local_const_row_end_index s3)
              then (False, s3)
              else
                (True,
                 s3\<lparr>local_constants := local_constants s3 @
                      map (\<lambda>const_idx.
                             \<lparr>const_name =
                                pdb_GetHeapString pdb (lc_name (local_constant_table ! const_idx))\<rparr>)
                          [unat (local_const_row_start_index s3) ..<
                           unat (local_const_row_end_index s3)]\<rparr>))"

subsection \<open>ParseMethod\<close>

text \<open>
  The loop over the sequence-point records, lines 125 to 149: \<open>None\<close> is the
  \<open>return false\<close> at a document-change record. \<open>il_offset\<close> is a \<open>uint32_t\<close>, so the
  accumulation wraps around.
\<close>

fun sequence_point_loop ::
  "metadata_headers \<Rightarrow> SequencePointRecord list \<Rightarrow> u32 \<Rightarrow> MethodInfo \<Rightarrow> MethodInfo option" where
  "sequence_point_loop mh [] il_offset_acc m = Some m"
| "sequence_point_loop mh (seq_point_record # records) il_offset_acc m =
     (if IsDocumentChange mh seq_point_record then None
      else
        let il_offset_new = il_offset_acc + il_delta seq_point_record;
            seq_point =
              \<lparr>il_offset = il_offset_new,
               start_line = rec_start_line seq_point_record,
               end_line = rec_end_line seq_point_record,
               start_col = rec_start_col seq_point_record,
               end_col = rec_end_col seq_point_record,
               is_hidden = (IsHidden mh seq_point_record
                            \<or> IsDocumentChange mh seq_point_record)\<rparr>;
            m1 = (if is_hidden seq_point then m
                  else m\<lparr>first_line := min (rec_start_line seq_point_record) (first_line m),
                         last_line := max (rec_end_line seq_point_record) (last_line m)\<rparr>)
        in sequence_point_loop mh records il_offset_new
             (m1\<lparr>sequence_points := sequence_points m1 @ [seq_point]\<rparr>))"

text \<open>
  A default-constructed \<open>Scope\<close>, the local variable of line 163. \<open>ParseScope\<close> assigns
  every integer field before its second test.
\<close>

definition default_Scope :: Scope where
  "default_Scope =
     \<lparr>local_var_row_start_index = 0, local_var_row_end_index = 0,
      local_const_row_start_index = 0, local_const_row_end_index = 0,
      start_offset = 0, scope_length = 0, scope_index = 0,
      local_variables = [], local_constants = []\<rparr>"

text \<open>
  The loop over the LocalScope table, lines 157 to 171, on the rows from position
  \<open>index\<close> on. The result of \<open>ParseScope\<close> is only logged (lines 164 to 168): the scope is
  pushed and the loop goes on whether it is true or false.
\<close>

fun scope_loop ::
  "metadata_headers \<Rightarrow> IPortablePdbFile \<Rightarrow> u32 \<Rightarrow> LocalScopeRow list \<Rightarrow> nat
     \<Rightarrow> Scope list \<Rightarrow> Scope list" where
  "scope_loop mh pdb method_def_arg [] index scopes = scopes"
| "scope_loop mh pdb method_def_arg (local_scope_row # rows) index scopes =
     (if ls_method_def local_scope_row \<noteq> method_def_arg
      then scope_loop mh pdb method_def_arg rows (Suc index) scopes
      else
        (case ParseScope mh pdb default_Scope local_scope_row (pdb_GetLocalScopeTable pdb)
                (pdb_GetLocalVariableTable pdb) (pdb_GetLocalConstantTable pdb)
                method_def_arg (of_nat index) of
           (ok, parsed_scope) \<Rightarrow>
             scope_loop mh pdb method_def_arg rows (Suc index) (scopes @ [parsed_scope])))"

definition UINT32_MAX :: u32 where
  "UINT32_MAX = 0xFFFFFFFF"

text \<open>
  \<open>DocumentIndex::ParseMethod\<close>, lines 100 to 174: \<open>None\<close> is \<open>return false\<close>, \<open>Some m\<close>
  is \<open>return true\<close> with \<open>*method = m\<close>.
\<close>

definition ParseMethod ::
  "metadata_headers \<Rightarrow> IPortablePdbFile \<Rightarrow> MethodDebugInformationRow \<Rightarrow> u32 \<Rightarrow> u32
     \<Rightarrow> MethodInfo option" where
  "ParseMethod mh pdb debug_info_row method_def_arg doc_index =
     (let m0 = \<lparr>method_def = method_def_arg, first_line = UINT32_MAX, last_line = 0,
                sequence_points = [], local_scope = []\<rparr>
      in case pdb_GetHeapBlobStream pdb (mdi_sequence_points debug_info_row) of
           None \<Rightarrow> None
         | Some sequence_point_blob_stream \<Rightarrow>
             (case ParseFrom mh doc_index sequence_point_blob_stream of
                (None, _) \<Rightarrow> None
              | (Some records, _) \<Rightarrow>
                  (case sequence_point_loop mh records 0 m0 of
                     None \<Rightarrow> None
                   | Some m1 \<Rightarrow>
                       Some (m1\<lparr>local_scope := local_scope m1 @
                                  scope_loop mh pdb method_def_arg
                                    (drop 1 (pdb_GetLocalScopeTable pdb)) 1 []\<rparr>))))"

subsection \<open>Initialize\<close>

text \<open>
  \<open>doc_index\<close> is an \<open>int\<close>. The comparison with \<open>document_table.size()\<close> and the index
  into the table convert it to \<open>size_t\<close> (64 bits): a negative value becomes a value of
  at least \<open>2 ^ 63\<close>. The comparison with the \<open>uint32_t\<close> field \<open>document\<close> and the call of
  \<open>ParseMethod\<close> keep its 32 bits.
\<close>

definition size_t_of_int :: "u32 \<Rightarrow> nat" where
  "size_t_of_int i = (if sint i < 0 then nat (2 ^ 64 + sint i) else nat (sint i))"

text \<open>
  Modelled from the spec: \<open>GetRemainingStreamLength\<close> of the absent reader, the number of
  bytes between the cursor and the active end.
\<close>

definition GetRemainingStreamLength :: "CustomBinaryStream \<Rightarrow> nat" where
  "GetRemainingStreamLength s = stream_end s - cursor s"

text \<open>
  The loop over the MethodDebugInformation table, lines 78 to 95, on the rows from
  position \<open>method_def\<close> on: \<open>(False, ms)\<close> is the \<open>return false\<close> of line 91 with the
  methods pushed so far.
\<close>

fun methods_loop ::
  "metadata_headers \<Rightarrow> IPortablePdbFile \<Rightarrow> u32 \<Rightarrow> MethodDebugInformationRow list \<Rightarrow> nat
     \<Rightarrow> MethodInfo list \<Rightarrow> bool \<times> MethodInfo list" where
  "methods_loop mh pdb doc_index [] method_def_i ms = (True, ms)"
| "methods_loop mh pdb doc_index (debug_info_row # rows) method_def_i ms =
     (if mdi_document debug_info_row \<noteq> doc_index
      then methods_loop mh pdb doc_index rows (Suc method_def_i) ms
      else
        (case ParseMethod mh pdb debug_info_row (of_nat method_def_i) doc_index of
           None \<Rightarrow> (False, ms)
         | Some parsed_method \<Rightarrow>
             methods_loop mh pdb doc_index rows (Suc method_def_i) (ms @ [parsed_method])))"

text \<open>
  \<open>DocumentIndex::Initialize\<close>, lines 31 to 98, on the object \<open>this\<close>: the flag returned
  and the object after the call.
\<close>

definition Initialize ::
  "metadata_headers \<Rightarrow> IPortablePdbFile \<Rightarrow> u32 \<Rightarrow> DocumentIndex \<Rightarrow> bool \<times> DocumentIndex" where
  "Initialize mh pdb doc_index this =
     (if doc_index = 0 then (False, this)
      else
        let document_table = pdb_GetDocumentTable pdb in
        if length document_table \<le> size_t_of_int doc_index then (False, this)
        else
          let doc_row = document_table ! size_t_of_int doc_index in
          case pdb_GetDocumentName pdb (doc_name doc_row) of
            None \<Rightarrow> (False, this)
          | Some path \<Rightarrow>
              let this1 = this
                    \<lparr>file_path := path,
                     source_language :=
                       GetLanguageName mh (pdb_GetHeapGuid pdb (language doc_row)),
                     hash_algorithm_name :=
                       GetHashAlgorithmName mh (pdb_GetHeapGuid pdb (hash_algorithm doc_row))\<rparr>
              in case pdb_GetHeapBlobStream pdb (hash doc_row) of
                   None \<Rightarrow> (False, this1)
                 | Some binary_stream \<Rightarrow>
                     let stream_len = GetRemainingStreamLength binary_stream in
                     (case ReadBytes stream_len binary_stream of
                        (None, _) \<Rightarrow> (False, this1\<lparr>hash_bytes := replicate stream_len 0\<rparr>)
                      | (Some bytes, _) \<Rightarrow>
                          (case methods_loop mh pdb doc_index
                                  (drop 1 (pdb_GetMethodDebugInfoTable pdb)) 1
                                  (methods this1) of
                             (ok, ms) \<Rightarrow> (ok, this1\<lparr>hash_bytes := bytes, methods := ms\<rparr>))))"

section \<open>The document name as the specification describes it\<close>

text \<open>
  Section 4.4 of the specification, on the bytes of the file and without a reader: a
  blob is a compressed length followed by that many bytes; the name blob holds one
  separator byte and then part indices up to its end; index 0 is an empty segment and
  any other index is the blob at that offset of the blob heap; the name is the segments
  joined by the separator. These definitions follow the specification, not the source;
  the theorem of claim C7 compares \<open>GetDocumentName\<close> with them.
\<close>

definition spec_compressed_uint32 :: "u8 list \<Rightarrow> (u32 \<times> nat) option" where
  "spec_compressed_uint32 bytes =
     (case bytes of
        [] \<Rightarrow> None
      | b0 # rest \<Rightarrow>
          if b0 AND 0x80 = 0 then Some (ucast b0, 1)
          else if b0 AND 0xC0 = 0x80 then
            (case rest of
               [] \<Rightarrow> None
             | b1 # _ \<Rightarrow> Some (push_bit 8 (ucast (b0 AND 0x3F)) OR ucast b1, 2))
          else if length rest < 3 then None
          else Some (push_bit 24 (ucast (b0 AND 0x7F))
                       OR push_bit 16 (ucast (rest ! 0))
                       OR push_bit 8 (ucast (rest ! 1))
                       OR ucast (rest ! 2), 4))"







section \<open>Concrete files\<close>

text \<open>
  A small file seen through the interface: one document, one method of it with three
  sequence-point records (a visible one on line 10, a hidden one, a visible one on
  line 12), a LocalVariable table of three rows and a LocalConstant table of one row
  (each after the unused row 0), and the LocalScope rows given as argument.
\<close>

definition example_records :: "SequencePointRecord list" where
  "example_records =
     [\<lparr>il_delta = 0, rec_start_line = 10, rec_end_line = 10,
       rec_start_col = 1, rec_end_col = 5\<rparr>,
      \<lparr>il_delta = 0, rec_start_line = 0xFEEFEE, rec_end_line = 0xFEEFEE,
       rec_start_col = 0, rec_end_col = 0\<rparr>,
      \<lparr>il_delta = 20, rec_start_line = 12, rec_end_line = 12,
       rec_start_col = 1, rec_end_col = 9\<rparr>]"

definition example_headers :: "SequencePointRecord list \<Rightarrow> metadata_headers" where
  "example_headers records =
     \<lparr>ParseFrom = (\<lambda>doc_index s. (Some records, s)),
      IsDocumentChange = (\<lambda>r. False),
      IsHidden = (\<lambda>r. rec_start_line r = 0xFEEFEE),
      GetLanguageName = (\<lambda>guid. guid),
      GetHashAlgorithmName = (\<lambda>guid. guid),
      kDebuggerHidden = 1\<rparr>"

definition example_scope_row :: "u32 \<Rightarrow> u32 \<Rightarrow> LocalScopeRow" where
  "example_scope_row vars consts =
     \<lparr>ls_method_def = 1, variable_list = vars, constant_list = consts,
      ls_start_offset = 0, ls_length = 40\<rparr>"

definition example_method_row :: MethodDebugInformationRow where
  "example_method_row = \<lparr>mdi_document = 1, mdi_sequence_points = 7\<rparr>"

definition example_pdb :: "LocalScopeRow list \<Rightarrow> IPortablePdbFile" where
  "example_pdb scope_rows =
     \<lparr>pdb_GetDocumentTable =
        [\<lparr>doc_name = 0, hash_algorithm = 0, hash = 0, language = 0\<rparr>,
         \<lparr>doc_name = 1, hash_algorithm = 1, hash = 1, language = 2\<rparr>],
      pdb_GetMethodDebugInfoTable =
        [\<lparr>mdi_document = 0, mdi_sequence_points = 0\<rparr>, example_method_row],
      pdb_GetLocalScopeTable = example_scope_row 0 0 # scope_rows,
      pdb_GetLocalVariableTable =
        [\<lparr>lv_attributes = 0, lv_index = 0, lv_name = 0\<rparr>,
         \<lparr>lv_attributes = 0, lv_index = 0, lv_name = 1\<rparr>,
         \<lparr>lv_attributes = 1, lv_index = 1, lv_name = 3\<rparr>,
         \<lparr>lv_attributes = 0, lv_index = 2, lv_name = 5\<rparr>],
      pdb_GetLocalConstantTable =
        [\<lparr>lc_name = 0, lc_signature = 0\<rparr>, \<lparr>lc_name = 7, lc_signature = 1\<rparr>],
      pdb_GetDocumentName = (\<lambda>index. Some ''a.cs''),
      pdb_GetHeapGuid = (\<lambda>index. ''guid''),
      pdb_GetHeapString = (\<lambda>index. ''x''),
      pdb_GetHeapBlobStream =
        (\<lambda>index. Some \<lparr>file_content = [], cursor = 0, relative_end = None\<rparr>)\<rparr>"

definition empty_index :: DocumentIndex where
  "empty_index =
     \<lparr>file_path = [], source_language = [], hash_algorithm_name = [],
      hash_bytes = [], methods = []\<rparr>"

text \<open>
  Nine records whose deltas are each the largest value of a four-byte compressed integer
  of the file format, \<open>0x1FFFFFFF\<close>; their sum is above \<open>2 ^ 32\<close>.
\<close>

definition wrapping_record :: SequencePointRecord where
  "wrapping_record =
     \<lparr>il_delta = 0x1FFFFFFF, rec_start_line = 1, rec_end_line = 1,
      rec_start_col = 1, rec_end_col = 2\<rparr>"

definition wrapping_records :: "SequencePointRecord list" where
  "wrapping_records =
     [wrapping_record, wrapping_record, wrapping_record, wrapping_record, wrapping_record,
      wrapping_record, wrapping_record, wrapping_record, wrapping_record]"

text \<open>
  A file as \<open>PortablePdbFile\<close> holds it after its stream directory has been read: the
  bytes, the offsets of the \<open>#Blob\<close> and \<open>#GUID\<close> heaps, a \<open>#~\<close> stream, and no table yet.
\<close>

definition example_file :: "u8 list \<Rightarrow> u32 \<Rightarrow> u32 \<Rightarrow> PortablePdbFile" where
  "example_file bytes blob_offset guid_offset =
     \<lparr>pdb_file_binary_stream = \<lparr>file_content = bytes, cursor = 0, relative_end = None\<rparr>,
      stream_headers = [\<lparr>sh_offset = 0, sh_size = 0, sh_name = ''#~''\<rparr>],
      string_heap_header = \<lparr>sh_offset = 0, sh_size = 0, sh_name = ''#Strings''\<rparr>,
      blob_heap_header = \<lparr>sh_offset = blob_offset, sh_size = 0, sh_name = ''#Blob''\<rparr>,
      guid_heap_header = \<lparr>sh_offset = guid_offset, sh_size = 0, sh_name = ''#GUID''\<rparr>,
      pdbfile_metadata_table_header = \<lparr>valid_mask = 0, num_rows = []\<rparr>,
      pdbfile_document_table = [], pdbfile_method_debug_info_table = [],
      pdbfile_local_scope_table = [], pdbfile_local_variable_table = [],
      pdbfile_local_constant_table = []\<rparr>"

text \<open>
  The table kinds with the numbers of the Portable PDB format, and parsers that return
  the given header and empty tables without reading.
\<close>

definition example_tables :: "MetadataTableHeader \<Rightarrow> metadata_tables" where
  "example_tables h =
     \<lparr>Document = 0x30, MethodDebugInformation = 0x31, LocalScope = 0x32,
      LocalVariable = 0x33, LocalConstant = 0x34, MaxValue = 0x38,
      ParseFrom_MetadataTableHeader = (\<lambda>s. (Some h, s)),
      ParseMetadataTableRow_DocumentRow = (\<lambda>n s. (Some [], s)),
      ParseMetadataTableRow_MethodDebugInformationRow = (\<lambda>n s. (Some [], s)),
      ParseMetadataTableRow_LocalScopeRow = (\<lambda>n s. (Some [], s)),
      ParseMetadataTableRow_LocalVariableRow = (\<lambda>n s. (Some [], s)),
      ParseMetadataTableRow_LocalConstantRow = (\<lambda>n s. (Some [], s))\<rparr>"

section \<open>Facts about words and lists\<close>

lemma UINT32_MAX_minus_one: "UINT32_MAX = - 1"
  by (simp add: UINT32_MAX_def)

lemma unat_min_word: "unat (min a b) = min (unat a) (unat (b :: u32))"
  by (simp add: min_def word_le_nat_alt)

lemma map_nth_upt_take_drop:
  "b \<le> length xs \<Longrightarrow> map (\<lambda>i. f (xs ! i)) [a..<b] = map f (take (b - a) (drop a xs))"
  by (rule nth_equalityI) auto

lemma fold_min_Min: "fold min xs (a :: u32) = Min (insert a (set xs))"
proof (induction xs arbitrary: a)
  case Nil
  then show ?case by simp
next
  case (Cons x xs)
  have "Min (insert (min x a) (set xs)) = Min (insert a (insert x (set xs)))"
    by (cases "set xs = {}") (simp_all add: ac_simps)
  with Cons show ?case by simp
qed

lemma fold_max_Max: "fold max xs (a :: u32) = Max (insert a (set xs))"
proof (induction xs arbitrary: a)
  case Nil
  then show ?case by simp
next
  case (Cons x xs)
  have "Max (insert (max x a) (set xs)) = Max (insert a (insert x (set xs)))"
    by (cases "set xs = {}") (simp_all add: ac_simps)
  with Cons show ?case by simp
qed

lemma Min_insert_top:
  "finite S \<Longrightarrow> Min (insert (- 1 :: u32) S) = (if S = {} then - 1 else Min S)"
proof (cases "S = {}")
  case True
  then show ?thesis by simp
next
  case False
  assume "finite S"
  have "Min S \<le> - 1" by simp
  then have "min (- 1) (Min S) = Min S" by (rule min_absorb2)
  with False \<open>finite S\<close> show ?thesis by simp
qed

lemma Max_insert_bot:
  "finite S \<Longrightarrow> Max (insert (0 :: u32) S) = (if S = {} then 0 else Max S)"
proof (cases "S = {}")
  case True
  then show ?thesis by simp
next
  case False
  assume "finite S"
  have "0 \<le> Max S" by simp
  then have "max 0 (Max S) = Max S" by (rule max_absorb2)
  with False \<open>finite S\<close> show ?thesis by simp
qed

lemma unat_sum_list:
  "sum_list (map (\<lambda>x. unat (f x)) xs) < 2 ^ 32 \<Longrightarrow>
     unat (sum_list (map f xs) :: u32) = sum_list (map (\<lambda>x. unat (f x)) xs)"
proof (induction xs)
  case Nil
  then show ?case by simp
next
  case (Cons x xs)
  then have "unat (sum_list (map f xs)) = sum_list (map (\<lambda>x. unat (f x)) xs)"
    by simp
  moreover from Cons.prems
  have "unat (f x) + sum_list (map (\<lambda>x. unat (f x)) xs) < 2 ^ 32" by simp
  ultimately show ?case
    by (simp add: unat_word_ariths)
qed

lemma sum_list_take_mono:
  "i \<le> j \<Longrightarrow> sum_list (map g (take i xs)) \<le> (sum_list (map g (take j xs)) :: nat)"
proof -
  assume "i \<le> j"
  then have "take j xs = take i xs @ take (j - i) (drop i xs)"
    by (metis le_add_diff_inverse take_add)
  then show ?thesis by simp
qed

lemma sum_list_take_le:
  "sum_list (map g (take i xs)) \<le> (sum_list (map g xs) :: nat)"
  using sum_list_take_mono [of i "max i (length xs)" g xs] by simp

lemma unat_sum_list_mod:
  "unat (sum_list (map f xs) :: u32) = sum_list (map (\<lambda>x. unat (f x)) xs) mod 2 ^ 32"
proof (induction xs)
  case Nil
  then show ?case by simp
next
  case (Cons x xs)
  have "unat (f x + sum_list (map f xs)) =
      (unat (f x) + unat (sum_list (map f xs))) mod 2 ^ 32"
    by (simp add: unat_word_ariths)
  also have "\<dots> = (unat (f x) + sum_list (map (\<lambda>x. unat (f x)) xs) mod 2 ^ 32) mod 2 ^ 32"
    by (simp only: Cons.IH)
  also have "\<dots> = (unat (f x) + sum_list (map (\<lambda>x. unat (f x)) xs)) mod 2 ^ 32"
    by (rule mod_add_right_eq)
  finally show ?case by simp
qed

lemma size_t_of_int_neg: "sint i < 0 \<Longrightarrow> 2 ^ 63 \<le> size_t_of_int i"
proof -
  assume a: "sint i < 0"
  have "- (2 ^ 31) \<le> sint i" using sint_ge [of i] by simp
  then have "(2::int) ^ 63 \<le> 2 ^ 64 + sint i" by simp
  then have "nat (2 ^ 63) \<le> nat (2 ^ 64 + sint i)" by (rule nat_mono)
  with a show ?thesis by (simp add: size_t_of_int_def)
qed

section \<open>The sequence-point loop\<close>

lemma sequence_point_loop_points:
  "sequence_point_loop mh records acc m = Some m' \<Longrightarrow>
     (\<exists>pts. sequence_points m' = sequence_points m @ pts
        \<and> map is_hidden pts = map (IsHidden mh) records
        \<and> map start_line pts = map rec_start_line records
        \<and> map end_line pts = map rec_end_line records
        \<and> map il_offset pts =
            map (\<lambda>k. acc + sum_list (map il_delta (take (Suc k) records)))
              [0..<length records]
        \<and> first_line m' =
            fold min (map start_line (filter (\<lambda>p. \<not> is_hidden p) pts)) (first_line m)
        \<and> last_line m' =
            fold max (map end_line (filter (\<lambda>p. \<not> is_hidden p) pts)) (last_line m))"
proof (induction records arbitrary: acc m)
  case Nil
  then show ?case by simp
next
  case (Cons r records)
  from Cons.prems have ndc: "\<not> IsDocumentChange mh r"
    by (auto split: if_splits)
  define pt where "pt = \<lparr>il_offset = acc + il_delta r, start_line = rec_start_line r,
     end_line = rec_end_line r, start_col = rec_start_col r, end_col = rec_end_col r,
     is_hidden = IsHidden mh r\<rparr>"
  define m1 where "m1 = (if IsHidden mh r then m
     else m\<lparr>first_line := min (rec_start_line r) (first_line m),
            last_line := max (rec_end_line r) (last_line m)\<rparr>)"
  from Cons.prems ndc
  have step: "sequence_point_loop mh records (acc + il_delta r)
      (m1\<lparr>sequence_points := sequence_points m1 @ [pt]\<rparr>) = Some m'"
    by (simp add: Let_def pt_def m1_def)
  from Cons.IH [OF step] obtain pts where
    pts: "sequence_points m' = sequence_points m1 @ [pt] @ pts"
      "map is_hidden pts = map (IsHidden mh) records"
      "map start_line pts = map rec_start_line records"
      "map end_line pts = map rec_end_line records"
      "map il_offset pts =
         map (\<lambda>k. acc + il_delta r + sum_list (map il_delta (take (Suc k) records)))
           [0..<length records]"
      "first_line m' =
         fold min (map start_line (filter (\<lambda>p. \<not> is_hidden p) pts)) (first_line m1)"
      "last_line m' =
         fold max (map end_line (filter (\<lambda>p. \<not> is_hidden p) pts)) (last_line m1)"
    by auto
  have sp1: "sequence_points m1 = sequence_points m" by (simp add: m1_def)
  have "sequence_points m' = sequence_points m @ (pt # pts)"
    using pts(1) sp1 by simp
  moreover have "map is_hidden (pt # pts) = map (IsHidden mh) (r # records)"
    using pts(2) by (simp add: pt_def)
  moreover have "map start_line (pt # pts) = map rec_start_line (r # records)"
    using pts(3) by (simp add: pt_def)
  moreover have "map end_line (pt # pts) = map rec_end_line (r # records)"
    using pts(4) by (simp add: pt_def)
  moreover have "map il_offset (pt # pts) =
      map (\<lambda>k. acc + sum_list (map il_delta (take (Suc k) (r # records))))
        [0..<length (r # records)]"
    using pts(5) by (simp add: pt_def map_upt_Suc add.assoc del: upt_Suc)
  moreover have "first_line m' =
      fold min (map start_line (filter (\<lambda>p. \<not> is_hidden p) (pt # pts))) (first_line m)"
    using pts(6) by (simp add: pt_def m1_def)
  moreover have "last_line m' =
      fold max (map end_line (filter (\<lambda>p. \<not> is_hidden p) (pt # pts))) (last_line m)"
    using pts(7) by (simp add: pt_def m1_def)
  ultimately show ?case by blast
qed

lemma ParseMethod_SomeD:
  assumes "ParseMethod mh pdb debug_info_row md di = Some m"
  shows "\<exists>stream records stream'.
      pdb_GetHeapBlobStream pdb (mdi_sequence_points debug_info_row) = Some stream
    \<and> ParseFrom mh di stream = (Some records, stream')
    \<and> map is_hidden (sequence_points m) = map (IsHidden mh) records
    \<and> map start_line (sequence_points m) = map rec_start_line records
    \<and> map end_line (sequence_points m) = map rec_end_line records
    \<and> map il_offset (sequence_points m) =
         map (\<lambda>k. sum_list (map il_delta (take (Suc k) records))) [0..<length records]
    \<and> first_line m =
         fold min (map start_line (filter (\<lambda>p. \<not> is_hidden p) (sequence_points m))) UINT32_MAX
    \<and> last_line m =
         fold max (map end_line (filter (\<lambda>p. \<not> is_hidden p) (sequence_points m))) 0"
proof -
  let ?m0 = "\<lparr>method_def = md, first_line = UINT32_MAX, last_line = 0,
               sequence_points = [], local_scope = []\<rparr>"
  from assms obtain stream where
    s: "pdb_GetHeapBlobStream pdb (mdi_sequence_points debug_info_row) = Some stream"
    by (auto simp: ParseMethod_def split: option.splits)
  obtain o1 stream' where p: "ParseFrom mh di stream = (o1, stream')"
    by (cases "ParseFrom mh di stream")
  from assms s p obtain records where r: "o1 = Some records"
    by (cases o1) (auto simp: ParseMethod_def)
  from assms s p r obtain m1 where
    l: "sequence_point_loop mh records 0 ?m0 = Some m1"
    and m: "m = m1\<lparr>local_scope := local_scope m1 @
          scope_loop mh pdb md (drop 1 (pdb_GetLocalScopeTable pdb)) 1 []\<rparr>"
    by (auto simp: ParseMethod_def split: option.splits)
  from sequence_point_loop_points [OF l] m s p r show ?thesis
    by auto
qed

section \<open>Theorems about documentindex.cc\<close>

text \<open>
  Claim C1 says that a local scope whose variable or constant row range is out of order
  or out of range makes the whole document parse fail: \<open>DocumentIndex::Initialize\<close>
  returns false. The code does not do this. \<open>ParseScope\<close> reports such a scope by
  returning false, but \<open>ParseMethod\<close> only logs that result (lines 164 to 168), pushes
  the scope and returns true. In the file below the only scope of the method starts at
  variable row 5 of a table of 4 rows: \<open>ParseScope\<close> returns false and \<open>Initialize\<close>
  returns true.
\<close>

theorem Initialize_ignores_corrupt_scope:
  "\<not> fst (ParseScope (example_headers example_records) (example_pdb [example_scope_row 5 1])
            default_Scope (example_scope_row 5 1)
            (pdb_GetLocalScopeTable (example_pdb [example_scope_row 5 1]))
            (pdb_GetLocalVariableTable (example_pdb [example_scope_row 5 1]))
            (pdb_GetLocalConstantTable (example_pdb [example_scope_row 5 1])) 1 1)
   \<and> fst (Initialize (example_headers example_records) (example_pdb [example_scope_row 5 1])
            1 empty_index)"
  by (simp add: Initialize_def ParseMethod_def ParseScope_def example_pdb_def
      example_headers_def example_records_def example_scope_row_def example_method_row_def
      size_t_of_int_def GetRemainingStreamLength_def stream_end_def ReadBytes_def
      default_Scope_def empty_index_def Let_def)

text \<open>
  Claim C4: for a scope at position \<open>i\<close> of the LocalScope table that \<open>ParseScope\<close>
  parses successfully, the variable rows it owns are \<open>[start, end)\<close> with \<open>start\<close> the
  \<open>variable_list\<close> of row \<open>i\<close> and \<open>end\<close> the smaller of the size of the LocalVariable
  table and the \<open>variable_list\<close> of row \<open>i + 1\<close> when that row exists, the size of the table
  otherwise; \<open>start \<le> end \<le> size\<close>; the variables collected are the rows of that range;
  and the same holds for the constant rows with \<open>constant_list\<close> and the LocalConstant
  table. The tables have fewer than \<open>2 ^ 32\<close> rows, as every table that is read from a
  file with 32-bit row counts and stream sizes has.
\<close>

theorem ParseScope_row_ranges:
  assumes ok: "ParseScope mh pdb sc (lst ! unat k) lst lvt lct md k = (True, sc')"
    and bounds: "length lst < 2 ^ 32" "length lvt < 2 ^ 32" "length lct < 2 ^ 32"
  shows "unat k < length lst
    \<and> local_var_row_start_index sc' = variable_list (lst ! unat k)
    \<and> unat (local_var_row_end_index sc') =
        (if unat k + 1 < length lst
         then min (length lvt) (unat (variable_list (lst ! (unat k + 1))))
         else length lvt)
    \<and> unat (local_var_row_start_index sc') \<le> unat (local_var_row_end_index sc')
    \<and> unat (local_var_row_end_index sc') \<le> length lvt
    \<and> map slot (local_variables sc') = map slot (local_variables sc) @
          map lv_index
            (take (unat (local_var_row_end_index sc') - unat (local_var_row_start_index sc'))
               (drop (unat (local_var_row_start_index sc')) lvt))
    \<and> local_const_row_start_index sc' = constant_list (lst ! unat k)
    \<and> unat (local_const_row_end_index sc') =
        (if unat k + 1 < length lst
         then min (length lct) (unat (constant_list (lst ! (unat k + 1))))
         else length lct)
    \<and> unat (local_const_row_start_index sc') \<le> unat (local_const_row_end_index sc')
    \<and> unat (local_const_row_end_index sc') \<le> length lct
    \<and> length (local_constants sc') = length (local_constants sc) +
          (unat (local_const_row_end_index sc') - unat (local_const_row_start_index sc'))"
proof -
  have k: "unat k < length lst"
    using ok by (auto simp: ParseScope_def split: if_splits)
  have k1: "unat (k + 1) = unat k + 1"
    using k bounds(1) by (simp add: unat_word_ariths)
  have lv: "unat (of_nat (length lvt) :: u32) = length lvt"
    using bounds(2) by (simp add: unat_of_nat)
  have lc: "unat (of_nat (length lct) :: u32) = length lct"
    using bounds(3) by (simp add: unat_of_nat)
  show ?thesis
  proof (cases "unat k + 1 < length lst")
    case True
    with ok k k1 lv lc show ?thesis
      by (auto simp: ParseScope_def Let_def unat_min_word word_less_nat_alt
          map_nth_upt_take_drop o_def split: if_splits)
  next
    case False
    with ok k k1 lv lc show ?thesis
      by (auto simp: ParseScope_def Let_def unat_min_word word_less_nat_alt
          map_nth_upt_take_drop o_def split: if_splits)
  qed
qed

theorem ParseScope_row_ranges_witness:
  "ParseScope (example_headers example_records)
       (example_pdb [example_scope_row 1 1, example_scope_row 3 1]) default_Scope
       ([example_scope_row 0 0, example_scope_row 1 1, example_scope_row 3 1] ! unat (1 :: u32))
       [example_scope_row 0 0, example_scope_row 1 1, example_scope_row 3 1]
       (pdb_GetLocalVariableTable (example_pdb []))
       (pdb_GetLocalConstantTable (example_pdb [])) 1 1
     = (True,
        \<lparr>local_var_row_start_index = 1, local_var_row_end_index = 3,
         local_const_row_start_index = 1, local_const_row_end_index = 1,
         start_offset = 0, scope_length = 40, scope_index = 1,
         local_variables =
           [\<lparr>debugger_hidden = False, slot = 0, var_name = ''x''\<rparr>,
            \<lparr>debugger_hidden = True, slot = 1, var_name = ''x''\<rparr>],
         local_constants = []\<rparr>)
   \<and> unat (3 :: u32) =
         min (length (pdb_GetLocalVariableTable (example_pdb [])))
           (unat (variable_list
              ([example_scope_row 0 0, example_scope_row 1 1, example_scope_row 3 1]
                 ! (unat (1 :: u32) + 1))))
   \<and> unat (1 :: u32) \<le> unat (3 :: u32)
   \<and> unat (3 :: u32) \<le> length (pdb_GetLocalVariableTable (example_pdb []))"
proof -
  let ?lst = "[example_scope_row 0 0, example_scope_row 1 1, example_scope_row 3 1]"
  let ?lvt = "pdb_GetLocalVariableTable (example_pdb [])"
  let ?lct = "pdb_GetLocalConstantTable (example_pdb [])"
  let ?sc = "\<lparr>local_var_row_start_index = 1, local_var_row_end_index = 3,
         local_const_row_start_index = 1, local_const_row_end_index = 1,
         start_offset = 0, scope_length = 40, scope_index = 1,
         local_variables =
           [\<lparr>debugger_hidden = False, slot = 0, var_name = ''x''\<rparr>,
            \<lparr>debugger_hidden = True, slot = 1, var_name = ''x''\<rparr>],
         local_constants = []\<rparr>"
  have ok: "ParseScope (example_headers example_records)
       (example_pdb [example_scope_row 1 1, example_scope_row 3 1]) default_Scope
       (?lst ! unat (1 :: u32)) ?lst ?lvt ?lct 1 1 = (True, ?sc)"
    by (simp add: ParseScope_def example_pdb_def example_headers_def example_scope_row_def
        default_Scope_def Let_def upt_rec)
  have b: "length ?lst < 2 ^ 32" "length ?lvt < 2 ^ 32" "length ?lct < 2 ^ 32"
    by (simp_all add: example_pdb_def)
  have next_row: "unat (1 :: u32) + 1 < length ?lst"
    by simp
  note r = ParseScope_row_ranges [OF ok b]
  from r have "unat (local_var_row_end_index ?sc) =
        (if unat (1 :: u32) + 1 < length ?lst
         then min (length ?lvt) (unat (variable_list (?lst ! (unat (1 :: u32) + 1))))
         else length ?lvt)"
    by blast
  with next_row have e: "unat (local_var_row_end_index ?sc) =
      min (length ?lvt) (unat (variable_list (?lst ! (unat (1 :: u32) + 1))))"
    by (simp only: if_True)
  from r have o: "unat (local_var_row_start_index ?sc) \<le> unat (local_var_row_end_index ?sc)"
    and u: "unat (local_var_row_end_index ?sc) \<le> length ?lvt"
    by blast+
  have sel: "local_var_row_end_index ?sc = 3" "local_var_row_start_index ?sc = 1"
    by simp_all
  from ok e o u show ?thesis
    unfolding sel by (intro conjI)
qed

text \<open>
  Claim C5: for a method that \<open>ParseMethod\<close> parses successfully, \<open>first_line\<close> is the
  least \<open>start_line\<close> and \<open>last_line\<close> the greatest \<open>end_line\<close> of its sequence points
  that are not hidden; when every point is hidden, or there is none, they keep the
  sentinels \<open>UINT32_MAX\<close> and \<open>0\<close>; and the list of sequence points has one point for every
  record of the blob, hidden ones included, with the record's hidden flag and lines.
\<close>

theorem ParseMethod_line_range:
  assumes "ParseMethod mh pdb debug_info_row md di = Some m"
  shows "(\<exists>stream records stream'.
            pdb_GetHeapBlobStream pdb (mdi_sequence_points debug_info_row) = Some stream
          \<and> ParseFrom mh di stream = (Some records, stream')
          \<and> map is_hidden (sequence_points m) = map (IsHidden mh) records
          \<and> map start_line (sequence_points m) = map rec_start_line records
          \<and> map end_line (sequence_points m) = map rec_end_line records)
    \<and> first_line m =
        (if filter (\<lambda>p. \<not> is_hidden p) (sequence_points m) = [] then UINT32_MAX
         else Min (set (map start_line (filter (\<lambda>p. \<not> is_hidden p) (sequence_points m)))))
    \<and> last_line m =
        (if filter (\<lambda>p. \<not> is_hidden p) (sequence_points m) = [] then 0
         else Max (set (map end_line (filter (\<lambda>p. \<not> is_hidden p) (sequence_points m)))))"
proof -
  let ?visible = "filter (\<lambda>p. \<not> is_hidden p) (sequence_points m)"
  from ParseMethod_SomeD [OF assms] obtain stream records stream' where
    d: "pdb_GetHeapBlobStream pdb (mdi_sequence_points debug_info_row) = Some stream"
      "ParseFrom mh di stream = (Some records, stream')"
      "map is_hidden (sequence_points m) = map (IsHidden mh) records"
      "map start_line (sequence_points m) = map rec_start_line records"
      "map end_line (sequence_points m) = map rec_end_line records"
      "first_line m = fold min (map start_line ?visible) UINT32_MAX"
      "last_line m = fold max (map end_line ?visible) 0"
    by blast
  have "first_line m = Min (insert (- 1) (set (map start_line ?visible)))"
    using d(6) by (simp only: fold_min_Min UINT32_MAX_minus_one)
  also have "\<dots> = (if set (map start_line ?visible) = {} then - 1
                    else Min (set (map start_line ?visible)))"
    by (rule Min_insert_top) simp
  finally have f: "first_line m =
      (if ?visible = [] then UINT32_MAX else Min (set (map start_line ?visible)))"
    by (simp only: set_empty map_is_Nil_conv UINT32_MAX_minus_one)
  have "last_line m = Max (insert 0 (set (map end_line ?visible)))"
    using d(7) by (simp only: fold_max_Max)
  also have "\<dots> = (if set (map end_line ?visible) = {} then 0
                    else Max (set (map end_line ?visible)))"
    by (rule Max_insert_bot) simp
  finally have l: "last_line m =
      (if ?visible = [] then 0 else Max (set (map end_line ?visible)))"
    by (simp only: set_empty map_is_Nil_conv)
  from d(1-5) f l show ?thesis by blast
qed

theorem ParseMethod_line_range_witness:
  "\<exists>m. ParseMethod (example_headers example_records)
          (example_pdb [example_scope_row 1 1, example_scope_row 3 1]) example_method_row 1 1
        = Some m
     \<and> map is_hidden (sequence_points m) = [False, True, False]
     \<and> first_line m = 10 \<and> last_line m = 12
     \<and> first_line m =
         Min (set (map start_line (filter (\<lambda>p. \<not> is_hidden p) (sequence_points m))))
     \<and> last_line m =
         Max (set (map end_line (filter (\<lambda>p. \<not> is_hidden p) (sequence_points m))))"
proof -
  have "\<exists>m. ParseMethod (example_headers example_records)
          (example_pdb [example_scope_row 1 1, example_scope_row 3 1]) example_method_row 1 1
        = Some m"
    by (simp add: ParseMethod_def example_headers_def example_pdb_def example_records_def
        Let_def)
  then obtain m where ev: "ParseMethod (example_headers example_records)
          (example_pdb [example_scope_row 1 1, example_scope_row 3 1]) example_method_row 1 1
        = Some m" ..
  from ev have vals: "map is_hidden (sequence_points m) = [False, True, False]"
      "first_line m = 10" "last_line m = 12"
    by (auto simp: ParseMethod_def example_headers_def example_pdb_def example_records_def
        Let_def UINT32_MAX_def)
  then have ne: "filter (\<lambda>p. \<not> is_hidden p) (sequence_points m) \<noteq> []"
    by (cases "sequence_points m") auto
  from ParseMethod_line_range [OF ev] ne
  have "first_line m =
         Min (set (map start_line (filter (\<lambda>p. \<not> is_hidden p) (sequence_points m))))"
    and "last_line m =
         Max (set (map end_line (filter (\<lambda>p. \<not> is_hidden p) (sequence_points m))))"
    by presburger+
  with ev vals show ?thesis
    by - (rule exI [of _ m], intro conjI, assumption+)
qed

text \<open>
  Claim C6 says that the \<open>il_offset\<close> of the \<open>k\<close>-th sequence point is the sum of the
  \<open>il_delta\<close> of the records \<open>1\<close> to \<open>k\<close>, and that the offsets are therefore
  non-decreasing. \<open>il_offset\<close> is a \<open>uint32_t\<close> that \<open>ParseMethod\<close> adds to without a
  test, so the sum is taken modulo \<open>2 ^ 32\<close>: with nine records of delta \<open>0x1FFFFFFF\<close> the
  ninth offset is \<open>0x1FFFFFF7\<close>, below the eighth, \<open>0xFFFFFFF8\<close>, and not the sum of the
  deltas.
\<close>

theorem il_offset_wraps_around:
  "map_option (map il_offset \<circ> sequence_points)
     (ParseMethod (example_headers wrapping_records) (example_pdb []) example_method_row 1 1)
     = Some [0x1FFFFFFF, 0x3FFFFFFE, 0x5FFFFFFD, 0x7FFFFFFC, 0x9FFFFFFB, 0xBFFFFFFA,
             0xDFFFFFF9, 0xFFFFFFF8, 0x1FFFFFF7]
   \<and> (0x1FFFFFF7 :: u32) < 0xFFFFFFF8
   \<and> sum_list (map (unat \<circ> il_delta) wrapping_records) = 0x11FFFFFF7"
  by (simp add: ParseMethod_def example_headers_def example_pdb_def wrapping_records_def
      wrapping_record_def example_method_row_def Let_def)

text \<open>
  Claim C6 as the code has it: for a method that \<open>ParseMethod\<close> parses successfully there
  is one sequence point for every record, the \<open>il_offset\<close> of the \<open>k\<close>-th point is the sum
  of the \<open>il_delta\<close> of the records up to the \<open>k\<close>-th modulo \<open>2 ^ 32\<close>, and the offsets
  are non-decreasing in the order of emission whenever the sum of all the deltas is
  below \<open>2 ^ 32\<close>.
\<close>

theorem ParseMethod_il_offsets:
  assumes "ParseMethod mh pdb debug_info_row md di = Some m"
  shows "\<exists>stream records stream'.
      pdb_GetHeapBlobStream pdb (mdi_sequence_points debug_info_row) = Some stream
    \<and> ParseFrom mh di stream = (Some records, stream')
    \<and> length (sequence_points m) = length records
    \<and> (\<forall>k<length records.
          unat (il_offset (sequence_points m ! k)) =
          sum_list (map (\<lambda>r. unat (il_delta r)) (take (Suc k) records)) mod 2 ^ 32)
    \<and> (sum_list (map (\<lambda>r. unat (il_delta r)) records) < 2 ^ 32
          \<longrightarrow> sorted (map il_offset (sequence_points m)))"
proof -
  from ParseMethod_SomeD [OF assms] obtain stream records stream' where
    d: "pdb_GetHeapBlobStream pdb (mdi_sequence_points debug_info_row) = Some stream"
      "ParseFrom mh di stream = (Some records, stream')"
      "map il_offset (sequence_points m) =
         map (\<lambda>k. sum_list (map il_delta (take (Suc k) records))) [0..<length records]"
    by blast
  from d(3) have len: "length (sequence_points m) = length records"
    by (metis length_map length_upt minus_nat.diff_0)
  have nth: "il_offset (sequence_points m ! k) = sum_list (map il_delta (take (Suc k) records))"
    if "k < length records" for k
  proof -
    from that len have "il_offset (sequence_points m ! k) = map il_offset (sequence_points m) ! k"
      by simp
    also from that have "\<dots> = sum_list (map il_delta (take (Suc k) records))"
      by (simp only: d(3)) simp
    finally show ?thesis .
  qed
  have modulo: "\<forall>k<length records.
      unat (il_offset (sequence_points m ! k)) =
      sum_list (map (\<lambda>r. unat (il_delta r)) (take (Suc k) records)) mod 2 ^ 32"
    using nth by (simp add: unat_sum_list_mod del: take_Suc_Cons)
  have sorted: "sorted (map il_offset (sequence_points m))"
    if small: "sum_list (map (\<lambda>r. unat (il_delta r)) records) < 2 ^ 32"
  proof -
    have u: "unat (sum_list (map il_delta (take k records))) =
        sum_list (map (\<lambda>r. unat (il_delta r)) (take k records))" for k
      using small sum_list_take_le [of "\<lambda>r. unat (il_delta r)" k records]
      by (intro unat_sum_list) simp
    show ?thesis
      by (auto simp: d(3) sorted_iff_nth_mono word_le_nat_alt u simp del: take_Suc_Cons
          intro: sum_list_take_mono)
  qed
  from d(1,2) len modulo sorted show ?thesis by blast
qed

theorem ParseMethod_il_offsets_witness:
  "\<exists>m. ParseMethod (example_headers example_records) (example_pdb []) example_method_row 1 1
        = Some m
     \<and> sum_list (map (\<lambda>r. unat (il_delta r)) example_records) < 2 ^ 32
     \<and> sorted (map il_offset (sequence_points m))
     \<and> map il_offset (sequence_points m) = [0, 0, 20]"
proof -
  have "\<exists>m. ParseMethod (example_headers example_records) (example_pdb [])
          example_method_row 1 1 = Some m"
    by (simp add: ParseMethod_def example_headers_def example_pdb_def example_records_def
        Let_def)
  then obtain m where ev: "ParseMethod (example_headers example_records) (example_pdb [])
          example_method_row 1 1 = Some m" ..
  from ev have vals: "map il_offset (sequence_points m) = [0, 0, 20]"
    by (auto simp: ParseMethod_def example_headers_def example_pdb_def example_records_def
        Let_def)
  have small: "sum_list (map (\<lambda>r. unat (il_delta r)) example_records) < 2 ^ 32"
    by (simp add: example_records_def)
  from ParseMethod_il_offsets [OF ev] obtain stream records stream' where
    r: "ParseFrom (example_headers example_records) 1 stream = (Some records, stream')"
      "sum_list (map (\<lambda>r. unat (il_delta r)) records) < 2 ^ 32
         \<longrightarrow> sorted (map il_offset (sequence_points m))"
    by blast
  from r(1) have "records = example_records"
    by (simp add: example_headers_def)
  with r(2) small have "sorted (map il_offset (sequence_points m))"
    by simp
  with ev vals small show ?thesis
    by - (rule exI [of _ m], intro conjI, assumption+)
qed

text \<open>
  Claim C9: \<open>DocumentIndex::Initialize\<close> returns false when \<open>doc_index\<close> is \<open>0\<close> and when
  it is at least the size of the document table, and it does so before any content of
  the document is decoded: the object is unchanged, whatever the accessors of the file
  would return. Only an index from \<open>1\<close> up to the size of the table, excluded, goes on to
  the construction; a negative \<open>int\<close> is rejected too, by the unsigned comparison (the
  table has fewer than \<open>2 ^ 63\<close> rows, as every \<open>std::vector\<close> has).
\<close>

theorem Initialize_rejects_index:
  "(doc_index = 0 \<longrightarrow> Initialize mh pdb doc_index this = (False, this))
   \<and> (int (length (pdb_GetDocumentTable pdb)) \<le> sint doc_index
        \<longrightarrow> Initialize mh pdb doc_index this = (False, this))
   \<and> (sint doc_index < 0 \<and> length (pdb_GetDocumentTable pdb) < 2 ^ 63
        \<longrightarrow> Initialize mh pdb doc_index this = (False, this))
   \<and> (fst (Initialize mh pdb doc_index this) \<and> length (pdb_GetDocumentTable pdb) < 2 ^ 63
        \<longrightarrow> 1 \<le> sint doc_index \<and> sint doc_index < int (length (pdb_GetDocumentTable pdb)))"
proof -
  let ?n = "length (pdb_GetDocumentTable pdb)"
  have zero: "Initialize mh pdb doc_index this = (False, this)" if "doc_index = 0"
    using that by (simp add: Initialize_def)
  have large: "Initialize mh pdb doc_index this = (False, this)"
    if a: "int ?n \<le> sint doc_index"
  proof -
    from a have "0 \<le> sint doc_index" by linarith
    with a have "?n \<le> size_t_of_int doc_index"
      by (simp add: size_t_of_int_def)
    then show ?thesis by (simp add: Initialize_def Let_def)
  qed
  have negative: "Initialize mh pdb doc_index this = (False, this)"
    if a: "sint doc_index < 0 \<and> ?n < 2 ^ 63"
  proof -
    from a have "?n \<le> size_t_of_int doc_index"
      using size_t_of_int_neg [of doc_index] by simp
    then show ?thesis by (simp add: Initialize_def Let_def)
  qed
  have proceeds: "1 \<le> sint doc_index \<and> sint doc_index < int ?n"
    if a: "fst (Initialize mh pdb doc_index this) \<and> ?n < 2 ^ 63"
  proof -
    from a have nz: "doc_index \<noteq> 0" by (auto simp: Initialize_def)
    have nn: "0 \<le> sint doc_index"
    proof (rule ccontr)
      assume "\<not> 0 \<le> sint doc_index"
      with a negative show False by simp
    qed
    have "sint doc_index \<noteq> 0" using nz by (simp add: signed_eq_0_iff)
    with nn have "1 \<le> sint doc_index" by simp
    moreover have "sint doc_index < int ?n"
    proof (rule ccontr)
      assume "\<not> sint doc_index < int ?n"
      with a large show False by simp
    qed
    ultimately show ?thesis by simp
  qed
  from zero large negative proceeds show ?thesis by blast
qed

theorem Initialize_rejects_index_witness:
  "Initialize (example_headers example_records) (example_pdb []) 0 empty_index
     = (False, empty_index)
   \<and> int (length (pdb_GetDocumentTable (example_pdb []))) \<le> sint (2 :: u32)
   \<and> Initialize (example_headers example_records) (example_pdb []) 2 empty_index
     = (False, empty_index)
   \<and> sint (- 1 :: u32) < 0
   \<and> Initialize (example_headers example_records) (example_pdb []) (- 1) empty_index
     = (False, empty_index)
   \<and> fst (Initialize (example_headers example_records) (example_pdb []) 1 empty_index)
   \<and> 1 \<le> sint (1 :: u32)
   \<and> sint (1 :: u32) < int (length (pdb_GetDocumentTable (example_pdb [])))"
proof -
  let ?mh = "example_headers example_records"
  let ?pdb = "example_pdb []"
  have n: "length (pdb_GetDocumentTable ?pdb) < 2 ^ 63"
    by (simp add: example_pdb_def)
  have big: "int (length (pdb_GetDocumentTable ?pdb)) \<le> sint (2 :: u32)"
    by (simp add: example_pdb_def)
  have neg: "sint (- 1 :: u32) < 0"
    by simp
  have ok: "fst (Initialize ?mh ?pdb 1 empty_index)"
    by (simp add: Initialize_def ParseMethod_def example_pdb_def example_headers_def
        example_records_def example_method_row_def size_t_of_int_def
        GetRemainingStreamLength_def stream_end_def ReadBytes_def empty_index_def Let_def)
  have "Initialize ?mh ?pdb 0 empty_index = (False, empty_index)"
    using Initialize_rejects_index [of 0 ?mh ?pdb empty_index] by blast
  moreover have "Initialize ?mh ?pdb 2 empty_index = (False, empty_index)"
    using Initialize_rejects_index [of 2 ?mh ?pdb empty_index] big by blast
  moreover have "Initialize ?mh ?pdb (- 1) empty_index = (False, empty_index)"
    using Initialize_rejects_index [of "- 1" ?mh ?pdb empty_index] neg n by blast
  moreover have "1 \<le> sint (1 :: u32) \<and> sint (1 :: u32) < int (length (pdb_GetDocumentTable ?pdb))"
    using Initialize_rejects_index [of 1 ?mh ?pdb empty_index] ok n by blast
  ultimately show ?thesis using big neg ok by blast
qed

section \<open>The reader and the bytes in front of it\<close>





lemma spec_compressed_uint32_size:
  "spec_compressed_uint32 bytes = Some (v, n) \<Longrightarrow> 0 < n \<and> n \<le> length bytes"
  by (auto simp: spec_compressed_uint32_def split: list.splits if_splits)







section \<open>Theorems about portablepdbfile.cc\<close>

lemma GetMethodSeqInfo_restores_stream_length:
  assumes "relative_end (pdb_file_binary_stream pdb) = None"
  shows "relative_end (snd (GetMethodSeqInfo mh pdb doc_index sequence_index)) = None"
  using assms
  by (auto simp: GetMethodSeqInfo_def SeekFromOrigin_def SetStreamLength_def
      ResetStreamLength_def ReadCompressedUInt32_def ReadByte_def ReadBytes_def
      split: prod.splits option.splits if_splits)

lemma GetDocumentName_index_zero:
  "GetDocumentName pdb 0 = (Returned None, pdb_file_binary_stream pdb)"
  by (simp add: GetDocumentName_def)

text \<open>
  Claim C2 says that every operation that sets a stream length resets it on every exit
  path, and names \<open>GetDocumentName\<close> and \<open>GetMethodSeqInfo\<close>. \<open>GetMethodSeqInfo\<close> does
  (lemma \<open>GetMethodSeqInfo_restores_stream_length\<close>), and so do five of the failure paths
  of \<open>GetDocumentName\<close>. The sixth, lines 175 to 178, returns false without
  \<open>ResetStreamLength\<close> when the seek back to the index list or the second
  \<open>SetStreamLength\<close> fails. In the file below the name blob \<open>02 2F 01\<close> (separator \<open>/\<close>,
  one part, the blob \<open>01 61\<close>) is followed by a single byte: the second \<open>SetStreamLength\<close>
  asks for two bytes after position 6 of a file of 7 bytes and fails, and the reader is
  left with the boundary at position 6.
\<close>

theorem GetDocumentName_leaves_stream_length:
  "relative_end (pdb_file_binary_stream
      (example_file [0x00, 0x01, 0x61, 0x02, 0x2F, 0x01, 0x00] 0 0)) = None
   \<and> GetDocumentName (example_file [0x00, 0x01, 0x61, 0x02, 0x2F, 0x01, 0x00] 0 0) 3
     = (Returned None,
        \<lparr>file_content = [0x00, 0x01, 0x61, 0x02, 0x2F, 0x01, 0x00], cursor = 6,
         relative_end = Some 6\<rparr>)"
  by (simp add: GetDocumentName_def example_file_def SeekFromOrigin_def
      ReadCompressedUInt32_def ReadByte_def ReadBytes_def HasNext_def stream_end_def
      SetStreamLength_def ResetStreamLength_def name_component_def Current_def Let_def)



text \<open>
  Claim C8 says that every heap accessor with a 1-based index rejects index 0, both
  \<open>GetDocumentName\<close> and \<open>GetHeapGuid\<close>, and that \<open>GetHeapGuid\<close> reads a valid index \<open>i\<close>
  at byte offset \<open>(i - 1) * 16\<close> of the GUID heap. \<open>GetDocumentName\<close> has the guard
  (line 114). \<open>GetHeapGuid\<close> has none: for index 0 the \<open>uint32_t\<close> offset
  \<open>(index - 1) * 16\<close> wraps to \<open>0xFFFFFFF0\<close>, the sum with the offset of the heap wraps
  again, and the call returns true with the 16 bytes in front of the heap. In the file
  below the heap starts at offset 16.
\<close>

theorem GetHeapGuid_accepts_index_zero:
  "fst (GetDocumentName (example_file (replicate 16 0xAA @ replicate 16 0x11) 0 16) 0)
     = Returned None
   \<and> fst (GetHeapGuid (example_file (replicate 16 0xAA @ replicate 16 0x11) 0 16) 0)
     = Some (replicate 16 0xAA)
   \<and> fst (GetHeapGuid (example_file (replicate 16 0xAA @ replicate 16 0x11) 0 16) 1)
     = Some (replicate 16 0x11)"
  by (simp add: GetDocumentName_def GetHeapGuid_def example_file_def SeekFromOrigin_def
      ReadBytes_def stream_end_def Let_def)

text \<open>
  Claim C10 says that whenever \<open>GetDocumentName\<close> reaches \<open>result.pop_back()\<close> the string
  is not empty, also for a blob without part indices. A name blob of declared length 1
  holds the separator only: the separator is read, \<open>HasNext\<close> is false, the loop body never
  runs, and \<open>pop_back\<close> is called on the empty string.
\<close>

theorem GetDocumentName_pop_back_on_empty:
  "fst (GetDocumentName (example_file [0x00, 0x01, 0x2F, 0x00] 0 0) 1) = Undefined"
  by (simp add: GetDocumentName_def example_file_def SeekFromOrigin_def
      ReadCompressedUInt32_def ReadByte_def ReadBytes_def HasNext_def stream_end_def
      SetStreamLength_def ResetStreamLength_def name_component_def Current_def Let_def)

text \<open>
  Claim C3 says that \<open>ParseCompressedMetadataTableStream\<close> returns false whenever a
  table kind other than the five PDB kinds has a nonzero row count. The loop that tests
  this (lines 323 to 328) runs \<open>i\<close> up to \<open>rows_per_table[MetadataTable::Document]\<close>, the
  number of rows of the Document table, and not up to the table kind
  \<open>MetadataTable::Document\<close>. With a header that gives table 0 five rows and has no
  Document table the loop does not run and the function returns true; with a header that
  has the Document table alone, of 49 rows, the loop reaches the Document table itself
  and the function returns false.
\<close>

theorem ParseCompressedMetadataTableStream_accepts_other_tables:
  "map_outcome fst
     (ParseCompressedMetadataTableStream
        (example_tables \<lparr>valid_mask = 1, num_rows = [5]\<rparr>) (example_file [] 0 0))
     = Returned True
   \<and> map_outcome fst
     (ParseCompressedMetadataTableStream
        (example_tables \<lparr>valid_mask = push_bit 0x30 1, num_rows = [49]\<rparr>)
        (example_file [] 0 0))
     = Returned False"
  by (simp add: ParseCompressedMetadataTableStream_def example_tables_def example_file_def
      GetStream_def SeekFromOrigin_def SetStreamLength_def parse_tables_def array_at_def
      upt_rec bit_numeral_Bit0_Suc_iff bit_numeral_Bit1_Suc_iff)

end
